theory Spec2Isabelle
  imports Complex_Main
begin

section \<open>Data model\<close>

text \<open>
  The notebook \<^verbatim>\<open>API_Testing_and_Automation.ipynb\<close> wraps six calls of the
  \<^verbatim>\<open>requests\<close> library, five test functions and a driver that spawns
  \<^verbatim>\<open>pytest\<close>. Everything the code touches outside itself (the remote service,
  the spawned process) is a parameter of the model; everything the code changes
  (the requests it issues, the log, the console) is a field of \<open>world\<close>.
\<close>

datatype http_method = GET | POST | PUT | DELETE

text \<open>Python floats as the JSON decoder may produce them, by exact value.\<close>

datatype pyfloat = Finite rat | PosInf | NegInf | NaN

text \<open>A decoded JSON value; an object is the list of its items.\<close>

datatype json =
    JNull
  | JBool bool
  | JInt int
  | JFloat pyfloat
  | JStr string
  | JList "json list"
  | JObj "(string \<times> json) list"

text \<open>The arguments of one call of \<^verbatim>\<open>requests.get/post/put/delete\<close>.\<close>

record request =
  verb :: http_method
  url :: string
  json_arg :: "json option"

text \<open>
  The \<^verbatim>\<open>Response\<close> object: \<open>decoded\<close> is what \<^verbatim>\<open>response.json()\<close> yields,
  \<open>Inr\<close> the value, or \<open>Inl\<close> the decoder's message when the body is not JSON and
  the call raises.
\<close>

record response =
  status_code :: int
  reason :: string
  final_url :: string
  body_text :: string
  decoded :: "string + json"

datatype exn_class =
    ConnectionError
  | Timeout
  | TooManyRedirects
  | HTTPError
  | RequestException
  | JSONDecodeError
  | AssertionError
  | AttributeError
  | TypeError
  | OtherException

text \<open>An exception: its class and \<^verbatim>\<open>str(e)\<close>.\<close>

datatype exn = Exn exn_class string

text \<open>
  \<^verbatim>\<open>isinstance(e, requests.RequestException)\<close>: the library's own exceptions,
  the JSON decoding error of \<^verbatim>\<open>Response.json\<close> included.
\<close>

fun is_RequestException :: "exn \<Rightarrow> bool" where
  "is_RequestException (Exn c m) =
     (c = ConnectionError \<or> c = Timeout \<or> c = TooManyRedirects \<or> c = HTTPError
      \<or> c = RequestException \<or> c = JSONDecodeError)"

fun str_exn :: "exn \<Rightarrow> string" where
  "str_exn (Exn c m) = m"

datatype net_outcome = Responded response | Raised exn

text \<open>
  The remote service and the transport: what a call of the library answers, given
  the requests issued before it (the service may keep state) and the request.
\<close>

type_synonym network = "request list \<Rightarrow> request \<Rightarrow> net_outcome"

text \<open>One argument of a \<^verbatim>\<open>print\<close> call: a string, or a value shown by its repr.\<close>

datatype printed = Text string | Repr json

text \<open>The keyword arguments of one call of \<^verbatim>\<open>subprocess.run\<close>.\<close>

record run_args =
  args :: "string list"
  check :: bool
  text_mode :: bool
  capture_output :: bool

text \<open>
  What \<^verbatim>\<open>subprocess.run\<close> hands back: the exit code and the two streams, which
  are \<^verbatim>\<open>None\<close> unless captured.
\<close>

record completed_process =
  returncode :: int
  out_stream :: "string option"
  err_stream :: "string option"

text \<open>
  The operating system: a command line runs to an exit code with its output, or the
  call fails otherwise (no such program, for one).
\<close>

datatype proc_outcome = Exited int string string | Failed exn

type_synonym os = "string list \<Rightarrow> proc_outcome"

datatype run_result =
    Completed completed_process
  | CalledProcessError completed_process
  | RaisedOther exn

text \<open>
  What the code changes: the requests issued (oldest first), the messages given to
  \<^verbatim>\<open>logging.error\<close>, the \<^verbatim>\<open>print\<close> calls, the processes spawned.
\<close>

record world =
  calls :: "request list"
  error_log :: "string list"
  stdout :: "printed list list"
  spawned :: "run_args list"

section \<open>Library primitives\<close>

definition BASE_URL :: string where
  "BASE_URL = ''https://jsonplaceholder.typicode.com''"

text \<open>The decimal digit \<open>d\<close>, for \<open>d\<close> below ten.\<close>

definition digit_char :: "nat \<Rightarrow> char" where
  "digit_char d =
     (if d = 0 then CHR ''0'' else if d = 1 then CHR ''1'' else if d = 2 then CHR ''2''
      else if d = 3 then CHR ''3'' else if d = 4 then CHR ''4'' else if d = 5 then CHR ''5''
      else if d = 6 then CHR ''6'' else if d = 7 then CHR ''7'' else if d = 8 then CHR ''8''
      else CHR ''9'')"

function str_nat :: "nat \<Rightarrow> string" where
  "str_nat n = (if n < 10 then [digit_char n] else str_nat (n div 10) @ [digit_char (n mod 10)])"
  by pat_completeness auto
termination
  by (relation "measure (\<lambda>n. n)") auto

declare str_nat.simps [simp del]

text \<open>\<^verbatim>\<open>str(post_id)\<close> inside an f-string, for an integer identifier.\<close>

definition str_int :: "int \<Rightarrow> string" where
  "str_int i = (if i < 0 then CHR ''-'' # str_nat (nat (- i)) else str_nat (nat i))"

text \<open>A call of the library: the network answers, the request is recorded.\<close>

definition requests_request :: "network \<Rightarrow> request \<Rightarrow> world \<Rightarrow> net_outcome \<times> world" where
  "requests_request net rq w = (net (calls w) rq, w\<lparr>calls := calls w @ [rq]\<rparr>)"

definition requests_get :: "network \<Rightarrow> string \<Rightarrow> world \<Rightarrow> net_outcome \<times> world" where
  "requests_get net u = requests_request net \<lparr>verb = GET, url = u, json_arg = None\<rparr>"

definition requests_post :: "network \<Rightarrow> string \<Rightarrow> json \<Rightarrow> world \<Rightarrow> net_outcome \<times> world" where
  "requests_post net u d = requests_request net \<lparr>verb = POST, url = u, json_arg = Some d\<rparr>"

definition requests_put :: "network \<Rightarrow> string \<Rightarrow> json \<Rightarrow> world \<Rightarrow> net_outcome \<times> world" where
  "requests_put net u d = requests_request net \<lparr>verb = PUT, url = u, json_arg = Some d\<rparr>"

definition requests_delete :: "network \<Rightarrow> string \<Rightarrow> world \<Rightarrow> net_outcome \<times> world" where
  "requests_delete net u = requests_request net \<lparr>verb = DELETE, url = u, json_arg = None\<rparr>"

text \<open>
  \<^verbatim>\<open>Response.raise_for_status\<close> of the library: an \<^verbatim>\<open>HTTPError\<close> for a status
  from 400 to 599, nothing for any other status.
\<close>

definition raise_for_status :: "response \<Rightarrow> exn option" where
  "raise_for_status r =
     (if 400 \<le> status_code r \<and> status_code r < 500
      then Some (Exn HTTPError (str_int (status_code r) @ '' Client Error: '' @ reason r
                                @ '' for url: '' @ final_url r))
      else if 500 \<le> status_code r \<and> status_code r < 600
      then Some (Exn HTTPError (str_int (status_code r) @ '' Server Error: '' @ reason r
                                @ '' for url: '' @ final_url r))
      else None)"

definition logging_error :: "string \<Rightarrow> world \<Rightarrow> world" where
  "logging_error msg w = w\<lparr>error_log := error_log w @ [msg]\<rparr>"

definition print :: "printed list \<Rightarrow> world \<Rightarrow> world" where
  "print items w = w\<lparr>stdout := stdout w @ [items]\<rparr>"

section \<open>Resource client\<close>

text \<open>
  The body of each \<^verbatim>\<open>try\<close>: the call, then \<^verbatim>\<open>raise_for_status\<close>, then
  \<^verbatim>\<open>return response\<close>.
\<close>

definition checked :: "net_outcome \<times> world \<Rightarrow> (exn + response) \<times> world" where
  "checked ow =
     (case ow of
        (Raised e, w) \<Rightarrow> (Inl e, w)
      | (Responded r, w) \<Rightarrow>
          (case raise_for_status r of
             Some e \<Rightarrow> (Inl e, w)
           | None \<Rightarrow> (Inr r, w)))"

text \<open>
  The handler \<^verbatim>\<open>except requests.RequestException as e\<close>: log and return
  \<^verbatim>\<open>None\<close>; any other exception leaves the function.
\<close>

definition except_RequestException ::
  "(exn \<Rightarrow> string) \<Rightarrow> (exn + response) \<times> world \<Rightarrow> (exn + response option) \<times> world" where
  "except_RequestException fmt rw =
     (case rw of
        (Inr r, w) \<Rightarrow> (Inr (Some r), w)
      | (Inl e, w) \<Rightarrow>
          (if is_RequestException e
           then (Inr None, logging_error (fmt e) w)
           else (Inl e, w)))"

definition get_posts :: "network \<Rightarrow> world \<Rightarrow> (exn + response option) \<times> world" where
  "get_posts net w =
     except_RequestException (\<lambda>e. ''Failed to retrieve posts: '' @ str_exn e)
       (checked (requests_get net (BASE_URL @ ''/posts'') w))"

definition get_post_by_id :: "network \<Rightarrow> int \<Rightarrow> world \<Rightarrow> (exn + response option) \<times> world" where
  "get_post_by_id net post_id w =
     except_RequestException
       (\<lambda>e. ''Failed to retrieve post with ID '' @ str_int post_id @ '': '' @ str_exn e)
       (checked (requests_get net (BASE_URL @ ''/posts/'' @ str_int post_id) w))"

definition get_post_comments :: "network \<Rightarrow> int \<Rightarrow> world \<Rightarrow> (exn + response option) \<times> world" where
  "get_post_comments net post_id w =
     except_RequestException
       (\<lambda>e. ''Failed to retrieve comments for post ID '' @ str_int post_id @ '': '' @ str_exn e)
       (checked (requests_get net (BASE_URL @ ''/posts/'' @ str_int post_id @ ''/comments'') w))"

definition post_post :: "network \<Rightarrow> world \<Rightarrow> (exn + response option) \<times> world" where
  "post_post net w =
     (let data = JObj [(''title'', JStr ''foo''), (''body'', JStr ''bar''), (''userId'', JInt 1)]
      in except_RequestException (\<lambda>e. ''Failed to create post: '' @ str_exn e)
           (checked (requests_post net (BASE_URL @ ''/posts'') data w)))"

definition put_post :: "network \<Rightarrow> int \<Rightarrow> world \<Rightarrow> (exn + response option) \<times> world" where
  "put_post net post_id w =
     (let data = JObj [(''title'', JStr ''foo''), (''body'', JStr ''bar updated''), (''userId'', JInt 1)]
      in except_RequestException
           (\<lambda>e. ''Failed to update post with ID '' @ str_int post_id @ '': '' @ str_exn e)
           (checked (requests_put net (BASE_URL @ ''/posts/'' @ str_int post_id) data w)))"

definition delete_post :: "network \<Rightarrow> int \<Rightarrow> world \<Rightarrow> (exn + response option) \<times> world" where
  "delete_post net post_id w =
     except_RequestException
       (\<lambda>e. ''Failed to delete post with ID '' @ str_int post_id @ '': '' @ str_exn e)
       (checked (requests_delete net (BASE_URL @ ''/posts/'' @ str_int post_id) w))"

text \<open>The six operations under one name, to speak of all of them at once.\<close>

datatype operation =
    FetchCollection
  | FetchOne int
  | FetchComments int
  | Create
  | Update int
  | Delete int

fun perform :: "network \<Rightarrow> operation \<Rightarrow> world \<Rightarrow> (exn + response option) \<times> world" where
  "perform net FetchCollection w = get_posts net w"
| "perform net (FetchOne i) w = get_post_by_id net i w"
| "perform net (FetchComments i) w = get_post_comments net i w"
| "perform net Create w = post_post net w"
| "perform net (Update i) w = put_post net i w"
| "perform net (Delete i) w = delete_post net i w"

section \<open>Test suite\<close>

text \<open>\<^verbatim>\<open>response.json()\<close>: the decoded body, or the decoder's exception.\<close>

definition response_json :: "response \<Rightarrow> exn + json" where
  "response_json r =
     (case decoded r of
        Inl m \<Rightarrow> Inl (Exn JSONDecodeError m)
      | Inr j \<Rightarrow> Inr j)"

fun type_name :: "json \<Rightarrow> string" where
  "type_name JNull = ''NoneType''"
| "type_name (JBool b) = ''bool''"
| "type_name (JInt n) = ''int''"
| "type_name (JFloat f) = ''float''"
| "type_name (JStr s) = ''str''"
| "type_name (JList xs) = ''list''"
| "type_name (JObj kvs) = ''dict''"

text \<open>
  \<^verbatim>\<open>value.get(key)\<close>: on a dict the item or \<^verbatim>\<open>None\<close>; no other decoded
  value has the method.
\<close>

definition py_get :: "json \<Rightarrow> string \<Rightarrow> exn + json" where
  "py_get j k =
     (case j of
        JObj kvs \<Rightarrow> Inr (case map_of kvs k of None \<Rightarrow> JNull | Some v \<Rightarrow> v)
      | _ \<Rightarrow> Inl (Exn AttributeError
                 ([CHR 0x27] @ type_name j @ [CHR 0x27] @ '' object has no attribute ''
                  @ [CHR 0x27] @ ''get'' @ [CHR 0x27])))"

text \<open>\<^verbatim>\<open>isinstance(value, list)\<close>.\<close>

fun isinstance_list :: "json \<Rightarrow> bool" where
  "isinstance_list (JList xs) = True"
| "isinstance_list j = False"

text \<open>\<^verbatim>\<open>len(value)\<close>, a \<^verbatim>\<open>TypeError\<close> on a value without a length.\<close>

definition py_len :: "json \<Rightarrow> exn + nat" where
  "py_len j =
     (case j of
        JList xs \<Rightarrow> Inr (length xs)
      | JObj kvs \<Rightarrow> Inr (length kvs)
      | JStr s \<Rightarrow> Inr (length s)
      | _ \<Rightarrow> Inl (Exn TypeError
                 (''object of type '' @ [CHR 0x27] @ type_name j @ [CHR 0x27] @ '' has no len()'')))"

text \<open>
  \<^verbatim>\<open>value == n\<close> for an integer literal: Python compares numbers by value, and
  \<^verbatim>\<open>True\<close> is 1.
\<close>

fun py_eq_int :: "json \<Rightarrow> int \<Rightarrow> bool" where
  "py_eq_int (JInt m) n = (m = n)"
| "py_eq_int (JBool b) n = ((if b then 1 else 0) = n)"
| "py_eq_int (JFloat (Finite q)) n = (q = of_int n)"
| "py_eq_int j n = False"

text \<open>\<^verbatim>\<open>value == s\<close> for a string literal.\<close>

fun py_eq_str :: "json \<Rightarrow> string \<Rightarrow> bool" where
  "py_eq_str (JStr t) s = (t = s)"
| "py_eq_str j s = False"

definition assertion_error :: exn where
  "assertion_error = Exn AssertionError []"

text \<open>
  A test returns \<open>None\<close> when it runs to its end, and the exception that left it
  otherwise: \<^verbatim>\<open>AssertionError\<close> for a failed \<^verbatim>\<open>assert\<close>.
\<close>

definition test_get_posts :: "network \<Rightarrow> world \<Rightarrow> exn option \<times> world" where
  "test_get_posts net w =
     (case get_posts net (print [Text ''Running test_get_posts''] w) of
        (Inl e, w1) \<Rightarrow> (Some e, w1)
      | (Inr None, w1) \<Rightarrow> (Some assertion_error, w1)
      | (Inr (Some r), w1) \<Rightarrow>
          (if status_code r \<noteq> 200 then (Some assertion_error, w1)
           else case response_json r of
                  Inl e \<Rightarrow> (Some e, w1)
                | Inr j \<Rightarrow>
                    (if \<not> isinstance_list j then (Some assertion_error, w1)
                     else case response_json r of
                            Inl e \<Rightarrow> (Some e, w1)
                          | Inr j' \<Rightarrow>
                              (case py_len j' of
                                 Inl e \<Rightarrow> (Some e, w1)
                               | Inr n \<Rightarrow>
                                   (if n > 0 then (None, w1)
                                    else (Some assertion_error, w1))))))"

definition test_get_post_by_id :: "network \<Rightarrow> world \<Rightarrow> exn option \<times> world" where
  "test_get_post_by_id net w =
     (case get_post_by_id net 1 (print [Text ''Running test_get_post_by_id''] w) of
        (Inl e, w1) \<Rightarrow> (Some e, w1)
      | (Inr None, w1) \<Rightarrow> (Some assertion_error, w1)
      | (Inr (Some r), w1) \<Rightarrow>
          (if status_code r \<noteq> 200 then (Some assertion_error, w1)
           else case response_json r of
                  Inl e \<Rightarrow> (Some e, w1)
                | Inr j \<Rightarrow>
                    (case py_get j ''id'' of
                       Inl e \<Rightarrow> (Some e, w1)
                     | Inr v \<Rightarrow>
                         (if py_eq_int v 1 then (None, w1)
                          else (Some assertion_error, w1)))))"

definition test_post_post :: "network \<Rightarrow> world \<Rightarrow> exn option \<times> world" where
  "test_post_post net w =
     (case post_post net (print [Text ''Running test_post_post''] w) of
        (Inl e, w1) \<Rightarrow> (Some e, w1)
      | (Inr None, w1) \<Rightarrow> (Some assertion_error, w1)
      | (Inr (Some r), w1) \<Rightarrow>
          (if status_code r \<noteq> 201 then (Some assertion_error, w1)
           else case response_json r of
                  Inl e \<Rightarrow> (Some e, w1)
                | Inr j \<Rightarrow>
                    (case py_get j ''title'' of
                       Inl e \<Rightarrow> (Some e, w1)
                     | Inr v \<Rightarrow>
                         (if py_eq_str v ''foo'' then (None, w1)
                          else (Some assertion_error, w1)))))"

definition test_put_post :: "network \<Rightarrow> world \<Rightarrow> exn option \<times> world" where
  "test_put_post net w =
     (case put_post net 1 (print [Text ''Running test_put_post''] w) of
        (Inl e, w1) \<Rightarrow> (Some e, w1)
      | (Inr None, w1) \<Rightarrow> (Some assertion_error, w1)
      | (Inr (Some r), w1) \<Rightarrow>
          (if status_code r \<noteq> 200 then (Some assertion_error, w1)
           else case response_json r of
                  Inl e \<Rightarrow> (Some e, w1)
                | Inr j \<Rightarrow>
                    (case py_get j ''body'' of
                       Inl e \<Rightarrow> (Some e, w1)
                     | Inr v \<Rightarrow>
                         (if py_eq_str v ''bar updated'' then (None, w1)
                          else (Some assertion_error, w1)))))"

definition test_delete_post :: "network \<Rightarrow> world \<Rightarrow> exn option \<times> world" where
  "test_delete_post net w =
     (case delete_post net 1 (print [Text ''Running test_delete_post''] w) of
        (Inl e, w1) \<Rightarrow> (Some e, w1)
      | (Inr None, w1) \<Rightarrow> (Some assertion_error, w1)
      | (Inr (Some delete_response), w1) \<Rightarrow>
          (if status_code delete_response \<noteq> 200 then (Some assertion_error, w1)
           else case get_post_by_id net 1 w1 of
                  (Inl e, w2) \<Rightarrow> (Some e, w2)
                | (Inr None, w2) \<Rightarrow> (Some assertion_error, w2)
                | (Inr (Some get_response), w2) \<Rightarrow>
                    (let w3 = print [Text (''Status code after deletion attempt: ''
                                           @ str_int (status_code get_response))] w2
                     in case response_json get_response of
                          Inl e \<Rightarrow> (Some e, w3)
                        | Inr j \<Rightarrow> (None, print [Text ''Response content:'', Repr j] w3))))"

section \<open>External-process driver\<close>

text \<open>
  \<^verbatim>\<open>subprocess.run\<close>: the command is spawned; with \<^verbatim>\<open>check\<close> a non-zero exit
  code raises \<^verbatim>\<open>CalledProcessError\<close>, which carries the same streams. Output
  that is not captured goes to the inherited streams and is not modelled.
\<close>

definition subprocess_run :: "os \<Rightarrow> run_args \<Rightarrow> world \<Rightarrow> run_result \<times> world" where
  "subprocess_run sys a w =
     (let w1 = w\<lparr>spawned := spawned w @ [a]\<rparr>
      in case sys (args a) of
           Failed e \<Rightarrow> (RaisedOther e, w1)
         | Exited rc out err \<Rightarrow>
             (let cp = \<lparr>returncode = rc,
                        out_stream = (if capture_output a then Some out else None),
                        err_stream = (if capture_output a then Some err else None)\<rparr>
              in if check a \<and> rc \<noteq> 0 then (CalledProcessError cp, w1)
                 else (Completed cp, w1)))"

text \<open>\<^verbatim>\<open>print(x)\<close> for a captured stream, which may be \<^verbatim>\<open>None\<close>.\<close>

definition show_stream :: "string option \<Rightarrow> printed" where
  "show_stream s = (case s of None \<Rightarrow> Text ''None'' | Some t \<Rightarrow> Text t)"

definition run_tests :: "os \<Rightarrow> world \<Rightarrow> exn option \<times> world" where
  "run_tests sys w =
     (case subprocess_run sys
             \<lparr>args = [''pytest'', ''--maxfail=1'', ''--disable-warnings'', ''-q''],
              check = True, text_mode = True, capture_output = True\<rparr> w of
        (Completed result, w1) \<Rightarrow>
          (None, print [show_stream (out_stream result)] (print [Text ''Test Results:''] w1))
      | (CalledProcessError e, w1) \<Rightarrow>
          (None, print [show_stream (err_stream e)]
                   (print [Text ''Standard Error:'']
                     (print [show_stream (out_stream e)]
                       (print [Text ''Standard Output:'']
                         (print [Text ''Tests failed:''] w1)))))
      | (RaisedOther e, w1) \<Rightarrow> (Some e, w1))"

section \<open>Redirects inside the library call\<close>

text \<open>
  The client passes no \<^verbatim>\<open>allow_redirects\<close>, so the library follows redirects
  inside the one call (\<^verbatim>\<open>Session.resolve_redirects\<close>). A \<open>network\<close> above is what
  a call of the library answers; below it is built from what the server answers to
  each single HTTP request.
\<close>

text \<open>
  The server's answer to one HTTP request: a response and its \<^verbatim>\<open>Location\<close>
  header, if it has one, as the absolute URL the library resolves it to; or the
  exception with which the call ends at this request (the transport fails, the
  location cannot be parsed).
\<close>

datatype wire_outcome = Answered response "string option" | Broken exn

text \<open>The server: its answer, given the HTTP requests sent before and the request.\<close>

type_synonym server = "request list \<Rightarrow> request \<Rightarrow> wire_outcome"

definition REDIRECT_STATI :: "int list" where
  "REDIRECT_STATI = [301, 302, 303, 307, 308]"

definition DEFAULT_REDIRECT_LIMIT :: nat where
  "DEFAULT_REDIRECT_LIMIT = 30"

text \<open>
  \<^verbatim>\<open>get_redirect_target\<close>: the location of a response that \<^verbatim>\<open>is_redirect\<close>,
  that is, has the header and one of the redirect statuses.
\<close>

definition get_redirect_target :: "response \<Rightarrow> string option \<Rightarrow> string option" where
  "get_redirect_target resp loc =
     (case loc of
        None \<Rightarrow> None
      | Some u \<Rightarrow> (if status_code resp \<in> set REDIRECT_STATI then Some u else None))"

text \<open>
  \<^verbatim>\<open>rebuild_method\<close>: a 303 and a 302 turn the method into GET, a 301 turns a
  POST into GET (the client never sends HEAD).
\<close>

definition rebuild_method :: "http_method \<Rightarrow> response \<Rightarrow> http_method" where
  "rebuild_method m resp =
     (let m1 = (if status_code resp = 303 then GET else m);
          m2 = (if status_code resp = 302 then GET else m1)
      in if status_code resp = 301 \<and> m2 = POST then GET else m2)"

text \<open>
  The request that follows a redirect: the new URL, the rebuilt method, and the body
  kept only by a 307 and a 308.
\<close>

definition redirected :: "request \<Rightarrow> response \<Rightarrow> string \<Rightarrow> request" where
  "redirected rq resp u =
     \<lparr>verb = rebuild_method (verb rq) resp, url = u,
      json_arg = (if status_code resp = 307 \<or> status_code resp = 308 then json_arg rq
                  else None)\<rparr>"

text \<open>
  One HTTP request: it ends the call with a response or an exception, or the response
  is a redirect with a non-empty target (\<^verbatim>\<open>while url\<close>) and there is a next request.
\<close>

datatype hop = Done net_outcome | Follow request

definition send_once :: "server \<Rightarrow> request list \<Rightarrow> request \<Rightarrow> hop" where
  "send_once srv tr rq =
     (case srv tr rq of
        Broken e \<Rightarrow> Done (Raised e)
      | Answered resp loc \<Rightarrow>
          (case get_redirect_target resp loc of
             None \<Rightarrow> Done (Responded resp)
           | Some u \<Rightarrow>
               (if u = [] then Done (Responded resp)
                else Follow (redirected rq resp u))))"

text \<open>
  The loop of \<^verbatim>\<open>resolve_redirects\<close>, with the number of redirects that may still
  be followed: the outcome of the call and the HTTP requests it sent, in order. When
  the limit is used up, one more redirect raises \<^verbatim>\<open>TooManyRedirects\<close>.
\<close>

fun send_following ::
  "server \<Rightarrow> request list \<Rightarrow> request \<Rightarrow> nat \<Rightarrow> net_outcome \<times> request list" where
  "send_following srv tr rq 0 =
     (case send_once srv tr rq of
        Done out \<Rightarrow> (out, [rq])
      | Follow rq' \<Rightarrow> (Raised (Exn TooManyRedirects ''Exceeded 30 redirects.''), [rq]))"
| "send_following srv tr rq (Suc k) =
     (case send_once srv tr rq of
        Done out \<Rightarrow> (out, [rq])
      | Follow rq' \<Rightarrow>
          (case send_following srv (tr @ [rq]) rq' k of
             (out, sent) \<Rightarrow> (out, rq # sent)))"

text \<open>
  The HTTP requests that a sequence of library calls puts on the wire, oldest first:
  each call sends its own after those of the calls before it.
\<close>

definition on_wire :: "server \<Rightarrow> request list \<Rightarrow> request list" where
  "on_wire srv h =
     foldl (\<lambda>tr rq. tr @ snd (send_following srv tr rq DEFAULT_REDIRECT_LIMIT)) [] h"

text \<open>The library over a server: what a call answers, after the calls \<open>h\<close> before it.\<close>

definition session :: "server \<Rightarrow> network" where
  "session srv h rq = fst (send_following srv (on_wire srv h) rq DEFAULT_REDIRECT_LIMIT)"

text \<open>The HTTP requests that one invocation of an operation sends.\<close>

definition sent_by :: "server \<Rightarrow> operation \<Rightarrow> world \<Rightarrow> request list" where
  "sent_by srv opn w =
     snd (send_following srv (on_wire srv (calls w))
            (last (calls (snd (perform (session srv) opn w)))) DEFAULT_REDIRECT_LIMIT)"

text \<open>
  A list of requests in which every request after the first is the one the library
  builds from the redirect that answered the request before it.
\<close>

fun redirect_chain :: "server \<Rightarrow> request list \<Rightarrow> request list \<Rightarrow> bool" where
  "redirect_chain srv tr [] = True"
| "redirect_chain srv tr [rq] = True"
| "redirect_chain srv tr (rq # rq' # rest) =
     (send_once srv tr rq = Follow rq' \<and> redirect_chain srv (tr @ [rq]) (rq' # rest))"

section \<open>The specification's tables\<close>

text \<open>
  The route table of the specification: method, path and payload of each operation,
  against the one base URL.
\<close>

definition spec_payload :: "string \<Rightarrow> json" where
  "spec_payload b = JObj [(''title'', JStr ''foo''), (''body'', JStr b), (''userId'', JInt 1)]"

fun spec_route :: "operation \<Rightarrow> request" where
  "spec_route FetchCollection =
     \<lparr>verb = GET, url = ''https://jsonplaceholder.typicode.com/posts'', json_arg = None\<rparr>"
| "spec_route (FetchOne i) =
     \<lparr>verb = GET, url = ''https://jsonplaceholder.typicode.com/posts/'' @ str_int i,
      json_arg = None\<rparr>"
| "spec_route (FetchComments i) =
     \<lparr>verb = GET,
      url = ''https://jsonplaceholder.typicode.com/posts/'' @ str_int i @ ''/comments'',
      json_arg = None\<rparr>"
| "spec_route Create =
     \<lparr>verb = POST, url = ''https://jsonplaceholder.typicode.com/posts'',
      json_arg = Some (spec_payload ''bar'')\<rparr>"
| "spec_route (Update i) =
     \<lparr>verb = PUT, url = ''https://jsonplaceholder.typicode.com/posts/'' @ str_int i,
      json_arg = Some (spec_payload ''bar updated'')\<rparr>"
| "spec_route (Delete i) =
     \<lparr>verb = DELETE, url = ''https://jsonplaceholder.typicode.com/posts/'' @ str_int i,
      json_arg = None\<rparr>"

text \<open>
  What a logged error must say to identify the operation, and the post identifier
  where the operation takes one.
\<close>

fun op_context :: "operation \<Rightarrow> string" where
  "op_context FetchCollection = ''Failed to retrieve posts: ''"
| "op_context (FetchOne i) = ''Failed to retrieve post with ID '' @ str_int i @ '': ''"
| "op_context (FetchComments i) =
     ''Failed to retrieve comments for post ID '' @ str_int i @ '': ''"
| "op_context Create = ''Failed to create post: ''"
| "op_context (Update i) = ''Failed to update post with ID '' @ str_int i @ '': ''"
| "op_context (Delete i) = ''Failed to delete post with ID '' @ str_int i @ '': ''"

text \<open>
  The request an operation issues, read off the world it leaves, and the answer the
  network gives to it.
\<close>

definition issued :: "network \<Rightarrow> operation \<Rightarrow> world \<Rightarrow> request" where
  "issued net opn w = last (calls (snd (perform net opn w)))"

definition answer :: "network \<Rightarrow> operation \<Rightarrow> world \<Rightarrow> net_outcome" where
  "answer net opn w = net (calls w) (issued net opn w)"

text \<open>A status that \<^verbatim>\<open>raise_for_status\<close> turns into an \<^verbatim>\<open>HTTPError\<close>.\<close>

definition error_status :: "int \<Rightarrow> bool" where
  "error_status s = (400 \<le> s \<and> s < 600)"

text \<open>
  The failures of a request: the library raises one of its own exceptions (no
  connection, a timeout, too many redirects), or the response has an error status.
\<close>

definition request_failed :: "net_outcome \<Rightarrow> bool" where
  "request_failed out =
     (case out of
        Raised e \<Rightarrow> is_RequestException e
      | Responded r \<Rightarrow> error_status (status_code r))"

section \<open>Example environments\<close>

definition world0 :: world where
  "world0 = \<lparr>calls = [], error_log = [], stdout = [], spawned = []\<rparr>"

definition reply :: "int \<Rightarrow> string \<Rightarrow> string + json \<Rightarrow> response" where
  "reply s rs d = \<lparr>status_code = s, reason = rs, final_url = [], body_text = [], decoded = d\<rparr>"

definition answering :: "response \<Rightarrow> network" where
  "answering r = (\<lambda>h rq. Responded r)"

definition unreachable :: network where
  "unreachable = (\<lambda>h rq. Raised (Exn ConnectionError ''Connection refused''))"

definition interrupted :: network where
  "interrupted = (\<lambda>h rq. Raised (Exn OtherException ''KeyboardInterrupt''))"

definition not_modified :: response where
  "not_modified = reply 304 ''Not Modified'' (Inl ''Expecting value'')"

definition not_found :: response where
  "not_found = reply 404 ''Not Found'' (Inr (JObj []))"

definition garbled :: response where
  "garbled = reply 200 ''OK'' (Inl ''Expecting value'')"

definition empty_ok :: response where
  "empty_ok = reply 200 ''OK'' (Inr (JObj []))"

definition post1 :: json where
  "post1 = JObj [(''userId'', JInt 1), (''id'', JInt 1),
                 (''title'', JStr ''sunt aut facere''), (''body'', JStr ''quia et suscipit'')]"

text \<open>
  A service that behaves as the public mock does: it echoes what is written and
  forgets it, so the deleted post is still served.
\<close>

definition placeholder :: network where
  "placeholder h rq =
     (case verb rq of
        GET \<Rightarrow>
          (if url rq = BASE_URL @ ''/posts''
           then Responded (reply 200 ''OK'' (Inr (JList [post1])))
           else Responded (reply 200 ''OK'' (Inr post1)))
      | POST \<Rightarrow>
          Responded (reply 201 ''Created''
            (Inr (JObj [(''title'', JStr ''foo''), (''body'', JStr ''bar''),
                        (''userId'', JInt 1), (''id'', JInt 101)])))
      | PUT \<Rightarrow>
          Responded (reply 200 ''OK''
            (Inr (JObj [(''title'', JStr ''foo''), (''body'', JStr ''bar updated''),
                        (''userId'', JInt 1), (''id'', JInt 1)])))
      | DELETE \<Rightarrow> Responded (reply 200 ''OK'' (Inr (JObj []))))"

text \<open>A service that does remove what is deleted: afterwards every fetch is a 404.\<close>

definition durable :: network where
  "durable h rq =
     (case verb rq of
        DELETE \<Rightarrow> Responded empty_ok
      | _ \<Rightarrow>
          (if list_ex (\<lambda>p. verb p = DELETE) h then Responded not_found
           else Responded (reply 200 ''OK'' (Inr post1))))"

text \<open>A server that moves the collection to the same path with a slash at its end.\<close>

definition moved :: server where
  "moved tr rq =
     (if url rq = ''https://jsonplaceholder.typicode.com/posts''
      then Answered (reply 301 ''Moved Permanently'' (Inl ''Expecting value''))
             (Some ''https://jsonplaceholder.typicode.com/posts/'')
      else Answered (reply 200 ''OK'' (Inr (JList [post1]))) None)"

text \<open>A server that answers every request with a redirect to the same place.\<close>

definition looping :: server where
  "looping tr rq =
     Answered (reply 302 ''Found'' (Inl ''Expecting value''))
       (Some ''https://jsonplaceholder.typicode.com/posts'')"

text \<open>A server that never redirects: every answer is a 404.\<close>

definition missing :: server where
  "missing tr rq = Answered not_found None"

text \<open>A server whose every answer is a 304 without a location.\<close>

definition unchanged :: server where
  "unchanged tr rq = Answered not_modified None"

definition pytest_fails :: os where
  "pytest_fails = (\<lambda>cmd. Exited 1 ''1 failed'' ''warning'')"

definition pytest_passes :: os where
  "pytest_passes = (\<lambda>cmd. Exited 0 ''5 passed'' [])"

section \<open>Properties of the resource client\<close>

lemma str_int_1: "str_int 1 = ''1''"
  by (simp add: str_int_def str_nat.simps digit_char_def)

lemma is_RequestException_raise_for_status:
  "raise_for_status r = Some e \<Longrightarrow> is_RequestException e"
  by (auto simp: raise_for_status_def split: if_splits)

lemma raise_for_status_None: "(raise_for_status r = None) = (\<not> error_status (status_code r))"
  by (auto simp: raise_for_status_def error_status_def)

lemma raise_for_status_Some: "raise_for_status r = Some e \<Longrightarrow> error_status (status_code r)"
  by (auto simp: raise_for_status_def error_status_def split: if_splits)

text \<open>The try/except of every operation, as one case distinction on the network's answer.\<close>

lemma guarded_request:
  "except_RequestException fmt (checked (requests_request net rq w)) =
     (case net (calls w) rq of
        Raised e \<Rightarrow>
          (if is_RequestException e
           then (Inr None, logging_error (fmt e) (w\<lparr>calls := calls w @ [rq]\<rparr>))
           else (Inl e, w\<lparr>calls := calls w @ [rq]\<rparr>))
      | Responded r \<Rightarrow>
          (if error_status (status_code r)
           then (Inr None, logging_error (fmt (the (raise_for_status r)))
                             (w\<lparr>calls := calls w @ [rq]\<rparr>))
           else (Inr (Some r), w\<lparr>calls := calls w @ [rq]\<rparr>)))"
  by (auto simp: except_RequestException_def checked_def requests_request_def
      is_RequestException_raise_for_status raise_for_status_None
      dest: raise_for_status_Some split: net_outcome.splits option.splits)

text \<open>Each of the six functions is that try/except around its own route and message.\<close>

lemma perform_guarded:
  "perform net opn w =
     except_RequestException (\<lambda>e. op_context opn @ str_exn e)
       (checked (requests_request net (spec_route opn) w))"
  by (cases opn)
     (simp_all add: get_posts_def get_post_by_id_def get_post_comments_def post_post_def
        put_post_def delete_post_def requests_get_def requests_post_def requests_put_def
        requests_delete_def BASE_URL_def spec_payload_def)

lemma calls_perform: "calls (snd (perform net opn w)) = calls w @ [spec_route opn]"
  by (simp add: perform_guarded guarded_request logging_error_def
      split: net_outcome.splits)

lemma issued_route: "issued net opn w = spec_route opn"
  by (simp add: issued_def calls_perform)

lemma answer_route: "answer net opn w = net (calls w) (spec_route opn)"
  by (simp add: answer_def issued_route)

lemma perform_failed:
  assumes "request_failed (net (calls w) (spec_route opn))"
  shows "\<exists>msg. perform net opn w =
           (Inr None, w\<lparr>calls := calls w @ [spec_route opn],
                        error_log := error_log w @ [op_context opn @ msg]\<rparr>)"
  using assms
  by (auto simp: perform_guarded guarded_request request_failed_def logging_error_def
      split: net_outcome.splits)

lemma perform_returned:
  assumes "net (calls w) (spec_route opn) = Responded r" "\<not> error_status (status_code r)"
  shows "perform net opn w = (Inr (Some r), w\<lparr>calls := calls w @ [spec_route opn]\<rparr>)"
  using assms
  by (simp add: perform_guarded guarded_request)

text \<open>
  Claim C4. Every client operation issues the request of the route table: the method,
  the path under the one base URL and the payload that the table gives for it, and
  nothing else.
\<close>

theorem requests_follow_route_table:
  "calls (snd (perform net opn w)) = calls w @ [spec_route opn]"
  by (simp add: perform_guarded guarded_request logging_error_def
      split: net_outcome.splits)

text \<open>
  Claim C1. For every client operation, when its request fails at the network layer
  (the library raises one of its exceptions) or with an HTTP error (a status that
  \<^verbatim>\<open>raise_for_status\<close> rejects), the operation returns \<^verbatim>\<open>None\<close>, no exception
  leaves it, and the log grows by exactly one entry, which starts with the operation's
  context and, where the operation takes one, the post identifier.
\<close>

theorem request_errors_become_null:
  assumes "request_failed (answer net opn w)"
  shows "fst (perform net opn w) = Inr None
         \<and> (\<exists>msg. error_log (snd (perform net opn w)) = error_log w @ [op_context opn @ msg])"
proof -
  from assms have "request_failed (net (calls w) (spec_route opn))"
    by (simp add: answer_route)
  from perform_failed [of net w opn, OF this] obtain msg where
    "perform net opn w =
       (Inr None, w\<lparr>calls := calls w @ [spec_route opn],
                    error_log := error_log w @ [op_context opn @ msg]\<rparr>)" ..
  then show ?thesis by simp
qed

theorem request_errors_become_null_witness:
  "request_failed (answer unreachable (FetchOne 7) world0)
   \<and> fst (perform unreachable (FetchOne 7) world0) = Inr None
   \<and> (\<exists>msg. error_log (snd (perform unreachable (FetchOne 7) world0))
              = error_log world0 @ [op_context (FetchOne 7) @ msg])
   \<and> request_failed (answer (answering not_found) (Delete 12) world0)
   \<and> fst (perform (answering not_found) (Delete 12) world0) = Inr None
   \<and> (\<exists>msg. error_log (snd (perform (answering not_found) (Delete 12) world0))
              = error_log world0 @ [op_context (Delete 12) @ msg])"
proof -
  have a: "request_failed (answer unreachable (FetchOne 7) world0)"
    by (simp add: answer_route request_failed_def unreachable_def)
  have b: "request_failed (answer (answering not_found) (Delete 12) world0)"
    by (simp add: answer_route request_failed_def answering_def not_found_def reply_def
        error_status_def)
  show ?thesis
    using a b request_errors_become_null [OF a] request_errors_become_null [OF b]
    by simp
qed

text \<open>
  Claim C6. What a client operation returns is the very response the HTTP call
  produced, every field as it was: a non-null result is the network's answer to the
  request, and an answer with a 2xx status is the result.
\<close>

theorem success_returns_envelope_unmodified:
  "(fst (perform net opn w) = Inr (Some r) \<longrightarrow> answer net opn w = Responded r)
   \<and> (answer net opn w = Responded r \<and> 200 \<le> status_code r \<and> status_code r < 300
        \<longrightarrow> fst (perform net opn w) = Inr (Some r))"
proof (intro conjI impI)
  assume "fst (perform net opn w) = Inr (Some r)"
  then show "answer net opn w = Responded r"
    by (auto simp: answer_route perform_guarded guarded_request
        split: net_outcome.splits if_splits)
next
  assume "answer net opn w = Responded r \<and> 200 \<le> status_code r \<and> status_code r < 300"
  then show "fst (perform net opn w) = Inr (Some r)"
    by (simp add: answer_route perform_returned error_status_def)
qed

theorem success_returns_envelope_unmodified_witness:
  "fst (perform placeholder Create world0) = Inr (Some (reply 201 ''Created''
      (Inr (JObj [(''title'', JStr ''foo''), (''body'', JStr ''bar''),
                  (''userId'', JInt 1), (''id'', JInt 101)]))))
   \<and> answer placeholder Create world0 = Responded (reply 201 ''Created''
      (Inr (JObj [(''title'', JStr ''foo''), (''body'', JStr ''bar''),
                  (''userId'', JInt 1), (''id'', JInt 101)])))"
proof -
  let ?r = "reply 201 ''Created''
      (Inr (JObj [(''title'', JStr ''foo''), (''body'', JStr ''bar''),
                  (''userId'', JInt 1), (''id'', JInt 101)]))"
  have a: "answer placeholder Create world0 = Responded ?r
           \<and> 200 \<le> status_code ?r \<and> status_code ?r < 300"
    by (simp add: answer_route placeholder_def reply_def)
  from success_returns_envelope_unmodified [of placeholder Create world0 ?r] a
  show ?thesis by simp
qed

text \<open>
  Claim C10. Create and update build their request from constants: any two invocations
  of create, and any two invocations of update with the same identifier, issue the same
  request, whatever the network and the state of the world; the payloads are
  \<^verbatim>\<open>{title: foo, body: bar, userId: 1}\<close> and \<^verbatim>\<open>{title: foo, body: bar updated, userId: 1}\<close>.
\<close>

theorem fixed_payloads_deterministic:
  "issued net1 Create w1 = issued net2 Create w2
   \<and> issued net1 (Update i) w1 = issued net2 (Update i) w2
   \<and> last (calls (snd (post_post net1 w1))) = last (calls (snd (post_post net2 w2)))
   \<and> last (calls (snd (put_post net1 i w1))) = last (calls (snd (put_post net2 i w2)))
   \<and> json_arg (last (calls (snd (post_post net1 w1))))
       = Some (JObj [(''title'', JStr ''foo''), (''body'', JStr ''bar''), (''userId'', JInt 1)])
   \<and> json_arg (last (calls (snd (put_post net1 i w1))))
       = Some (JObj [(''title'', JStr ''foo''), (''body'', JStr ''bar updated''),
                     (''userId'', JInt 1)])"
  using calls_perform [of net1 Create w1] calls_perform [of net2 Create w2]
    calls_perform [of net1 "Update i" w1] calls_perform [of net2 "Update i" w2]
  by (simp add: issued_def spec_payload_def)

text \<open>
  Claim C8. The driver spawns \<^verbatim>\<open>pytest --maxfail=1 --disable-warnings -q\<close> once,
  capturing its output. When the process exits with a non-zero code the failure is
  caught, and the captured standard output and standard error are printed; when it
  exits with zero the captured standard output is printed.
\<close>

theorem run_tests_reports_process_outcome:
  "spawned (snd (run_tests sys w)) =
     spawned w @ [\<lparr>args = [''pytest'', ''--maxfail=1'', ''--disable-warnings'', ''-q''],
                   check = True, text_mode = True, capture_output = True\<rparr>]
   \<and> (sys [''pytest'', ''--maxfail=1'', ''--disable-warnings'', ''-q''] = Exited rc out err
        \<and> rc \<noteq> 0 \<longrightarrow>
        fst (run_tests sys w) = None
        \<and> stdout (snd (run_tests sys w)) =
            stdout w @ [[Text ''Tests failed:''], [Text ''Standard Output:''], [Text out],
                        [Text ''Standard Error:''], [Text err]])
   \<and> (sys [''pytest'', ''--maxfail=1'', ''--disable-warnings'', ''-q''] = Exited 0 out err
        \<longrightarrow>
        fst (run_tests sys w) = None
        \<and> stdout (snd (run_tests sys w)) = stdout w @ [[Text ''Test Results:''], [Text out]])"
  by (simp add: run_tests_def subprocess_run_def print_def show_stream_def Let_def
      split: proc_outcome.splits)

theorem run_tests_reports_process_outcome_witness:
  "pytest_fails [''pytest'', ''--maxfail=1'', ''--disable-warnings'', ''-q'']
     = Exited 1 ''1 failed'' ''warning''
   \<and> fst (run_tests pytest_fails world0) = None
   \<and> stdout (snd (run_tests pytest_fails world0)) =
        [[Text ''Tests failed:''], [Text ''Standard Output:''], [Text ''1 failed''],
         [Text ''Standard Error:''], [Text ''warning'']]
   \<and> pytest_passes [''pytest'', ''--maxfail=1'', ''--disable-warnings'', ''-q'']
     = Exited 0 ''5 passed'' []
   \<and> fst (run_tests pytest_passes world0) = None
   \<and> stdout (snd (run_tests pytest_passes world0)) = [[Text ''Test Results:''], [Text ''5 passed'']]"
proof -
  have a: "pytest_fails [''pytest'', ''--maxfail=1'', ''--disable-warnings'', ''-q'']
             = Exited 1 ''1 failed'' ''warning'' \<and> (1::int) \<noteq> 0"
    by (simp add: pytest_fails_def)
  have b: "pytest_passes [''pytest'', ''--maxfail=1'', ''--disable-warnings'', ''-q'']
             = Exited 0 ''5 passed'' []"
    by (simp add: pytest_passes_def)
  from run_tests_reports_process_outcome [of pytest_fails world0 1 "''1 failed''" "''warning''"]
    run_tests_reports_process_outcome [of pytest_passes world0 0 "''5 passed''" "[]"] a b
  show ?thesis by (simp add: world0_def)
qed

section \<open>Properties of the test suite\<close>

lemma calls_print: "calls (print x w) = calls w"
  by (simp add: print_def)

lemma fst_perform_print: "fst (perform net opn (print x w)) = fst (perform net opn w)"
  by (simp add: perform_guarded guarded_request calls_print split: net_outcome.splits)

lemma py_eq_str_iff: "py_eq_str v s = (v = JStr s)"
  by (cases v) auto

text \<open>Each test runs to its end exactly when every one of its checks holds.\<close>

lemma test_get_posts_passes:
  "(fst (test_get_posts net w) = None) =
     (\<exists>r xs. fst (get_posts net w) = Inr (Some r) \<and> status_code r = 200
             \<and> decoded r = Inr (JList xs) \<and> xs \<noteq> [])"
proof -
  have eq: "fst (get_posts net (print [Text ''Running test_get_posts''] w)) = fst (get_posts net w)"
    using fst_perform_print [of net FetchCollection] by simp
  show ?thesis
    unfolding eq [symmetric]
    by (cases "get_posts net (print [Text ''Running test_get_posts''] w)")
       (auto simp: test_get_posts_def response_json_def py_len_def assertion_error_def
          split: sum.splits option.splits json.splits if_splits)
qed

lemma test_get_post_by_id_passes:
  "(fst (test_get_post_by_id net w) = None) =
     (\<exists>r kvs v. fst (get_post_by_id net 1 w) = Inr (Some r) \<and> status_code r = 200
             \<and> decoded r = Inr (JObj kvs) \<and> map_of kvs ''id'' = Some v \<and> py_eq_int v 1)"
proof -
  have eq: "fst (get_post_by_id net 1 (print [Text ''Running test_get_post_by_id''] w))
            = fst (get_post_by_id net 1 w)"
    using fst_perform_print [of net "FetchOne 1"] by simp
  show ?thesis
    unfolding eq [symmetric]
    by (cases "get_post_by_id net 1 (print [Text ''Running test_get_post_by_id''] w)")
       (auto simp: test_get_post_by_id_def response_json_def py_get_def assertion_error_def
          split: sum.splits option.splits json.splits if_splits)
qed

lemma test_post_post_passes:
  "(fst (test_post_post net w) = None) =
     (\<exists>r kvs. fst (post_post net w) = Inr (Some r) \<and> status_code r = 201
             \<and> decoded r = Inr (JObj kvs) \<and> map_of kvs ''title'' = Some (JStr ''foo''))"
proof -
  have eq: "fst (post_post net (print [Text ''Running test_post_post''] w)) = fst (post_post net w)"
    using fst_perform_print [of net Create] by simp
  show ?thesis
    unfolding eq [symmetric]
    by (cases "post_post net (print [Text ''Running test_post_post''] w)")
       (auto simp: test_post_post_def response_json_def py_get_def assertion_error_def
          py_eq_str_iff split: sum.splits option.splits json.splits if_splits)
qed

lemma test_put_post_passes:
  "(fst (test_put_post net w) = None) =
     (\<exists>r kvs. fst (put_post net 1 w) = Inr (Some r) \<and> status_code r = 200
             \<and> decoded r = Inr (JObj kvs) \<and> map_of kvs ''body'' = Some (JStr ''bar updated''))"
proof -
  have eq: "fst (put_post net 1 (print [Text ''Running test_put_post''] w)) = fst (put_post net 1 w)"
    using fst_perform_print [of net "Update 1"] by simp
  show ?thesis
    unfolding eq [symmetric]
    by (cases "put_post net 1 (print [Text ''Running test_put_post''] w)")
       (auto simp: test_put_post_def response_json_def py_get_def assertion_error_def
          py_eq_str_iff split: sum.splits option.splits json.splits if_splits)
qed

lemma test_delete_post_verdict:
  assumes "delete_post net 1 (print [Text ''Running test_delete_post''] w) = (res, w1)"
  shows "fst (test_delete_post net w) =
     (case res of
        Inl e \<Rightarrow> Some e
      | Inr None \<Rightarrow> Some assertion_error
      | Inr (Some d) \<Rightarrow>
          (if status_code d \<noteq> 200 then Some assertion_error
           else case fst (get_post_by_id net 1 w1) of
                  Inl e \<Rightarrow> Some e
                | Inr None \<Rightarrow> Some assertion_error
                | Inr (Some g) \<Rightarrow>
                    (case decoded g of Inl m \<Rightarrow> Some (Exn JSONDecodeError m) | Inr j \<Rightarrow> None)))"
  using assms
  by (cases "get_post_by_id net 1 w1")
     (auto simp: test_delete_post_def response_json_def Let_def
        split: sum.splits option.splits)


lemma test_delete_post_passes:
  "(fst (test_delete_post net w) = None) =
     (\<exists>d w1 g j. delete_post net 1 (print [Text ''Running test_delete_post''] w)
                    = (Inr (Some d), w1)
             \<and> status_code d = 200
             \<and> fst (get_post_by_id net 1 w1) = Inr (Some g) \<and> decoded g = Inr j)"
proof -
  obtain res w1 where d: "delete_post net 1 (print [Text ''Running test_delete_post''] w) = (res, w1)"
    by (cases "delete_post net 1 (print [Text ''Running test_delete_post''] w)")
  show ?thesis
    by (auto simp: test_delete_post_verdict [OF d] d assertion_error_def
        split: sum.splits option.splits if_splits)
qed

text \<open>All five tests run to their end against the mock service.\<close>

lemma placeholder_runs:
  "fst (test_get_posts placeholder world0) = None"
  "fst (test_get_post_by_id placeholder world0) = None"
  "fst (test_post_post placeholder world0) = None"
  "fst (test_put_post placeholder world0) = None"
  "fst (test_delete_post placeholder world0) = None"
  by (simp_all add: test_get_posts_def test_get_post_by_id_def test_post_post_def
      test_put_post_def test_delete_post_def get_posts_def get_post_by_id_def post_post_def
      put_post_def delete_post_def except_RequestException_def checked_def requests_get_def
      requests_post_def requests_put_def requests_delete_def requests_request_def
      raise_for_status_def placeholder_def reply_def print_def world0_def BASE_URL_def
      response_json_def py_len_def py_get_def post1_def str_int_1 Let_def)

text \<open>
  Claim C3, as stated, fails for the delete test: against a service whose every
  response is \<^verbatim>\<open>200\<close> with the body \<^verbatim>\<open>{}\<close>, which has neither a title nor
  a body field, the delete succeeds and the delete test runs to its end.
\<close>

theorem delete_test_checks_no_body_field:
  "decoded empty_ok = Inr (JObj [])
   \<and> py_get (JObj []) ''title'' = Inr JNull
   \<and> py_get (JObj []) ''body'' = Inr JNull
   \<and> fst (perform (answering empty_ok) (Delete 1) world0) = Inr (Some empty_ok)
   \<and> fst (test_delete_post (answering empty_ok) world0) = None"
  by (simp add: test_delete_post_def get_post_by_id_def delete_post_def
      except_RequestException_def checked_def requests_get_def requests_delete_def
      requests_request_def raise_for_status_def answering_def empty_ok_def reply_def
      print_def world0_def response_json_def py_get_def Let_def)

text \<open>
  Claim C3, amended. Every test requires a non-null client result and the expected
  status code (200 for the reads, update and delete; 201 for create). The collection
  test requires a non-empty list, the single fetch a body whose id equals 1, create a
  body whose title is \<^verbatim>\<open>foo\<close>, update a body whose body field is
  \<^verbatim>\<open>bar updated\<close>. The delete test requires no field of any body: beyond the
  delete's result and status it requires only that the follow-up fetch is non-null
  (and that its body decodes, for the progress print).
\<close>

theorem tests_assert_result_status_and_body:
  "((fst (test_get_posts net w) = None) =
     (\<exists>r xs. fst (get_posts net w) = Inr (Some r) \<and> status_code r = 200
             \<and> decoded r = Inr (JList xs) \<and> xs \<noteq> []))
   \<and> ((fst (test_get_post_by_id net w) = None) =
     (\<exists>r kvs v. fst (get_post_by_id net 1 w) = Inr (Some r) \<and> status_code r = 200
             \<and> decoded r = Inr (JObj kvs) \<and> map_of kvs ''id'' = Some v \<and> py_eq_int v 1))
   \<and> ((fst (test_post_post net w) = None) =
     (\<exists>r kvs. fst (post_post net w) = Inr (Some r) \<and> status_code r = 201
             \<and> decoded r = Inr (JObj kvs) \<and> map_of kvs ''title'' = Some (JStr ''foo'')))
   \<and> ((fst (test_put_post net w) = None) =
     (\<exists>r kvs. fst (put_post net 1 w) = Inr (Some r) \<and> status_code r = 200
             \<and> decoded r = Inr (JObj kvs) \<and> map_of kvs ''body'' = Some (JStr ''bar updated'')))
   \<and> ((fst (test_delete_post net w) = None) =
     (\<exists>d w1 g j. delete_post net 1 (print [Text ''Running test_delete_post''] w)
                    = (Inr (Some d), w1)
             \<and> status_code d = 200
             \<and> fst (get_post_by_id net 1 w1) = Inr (Some g) \<and> decoded g = Inr j))"
  by (intro conjI test_get_posts_passes test_get_post_by_id_passes test_post_post_passes
      test_put_post_passes test_delete_post_passes)

theorem tests_assert_result_status_and_body_witness:
  "fst (test_get_posts placeholder world0) = None
   \<and> (\<exists>r xs. fst (get_posts placeholder world0) = Inr (Some r) \<and> status_code r = 200
             \<and> decoded r = Inr (JList xs) \<and> xs \<noteq> [])
   \<and> fst (test_get_post_by_id placeholder world0) = None
   \<and> (\<exists>r kvs v. fst (get_post_by_id placeholder 1 world0) = Inr (Some r)
             \<and> status_code r = 200
             \<and> decoded r = Inr (JObj kvs) \<and> map_of kvs ''id'' = Some v \<and> py_eq_int v 1)
   \<and> fst (test_post_post placeholder world0) = None
   \<and> (\<exists>r kvs. fst (post_post placeholder world0) = Inr (Some r) \<and> status_code r = 201
             \<and> decoded r = Inr (JObj kvs) \<and> map_of kvs ''title'' = Some (JStr ''foo''))
   \<and> fst (test_put_post placeholder world0) = None
   \<and> (\<exists>r kvs. fst (put_post placeholder 1 world0) = Inr (Some r) \<and> status_code r = 200
             \<and> decoded r = Inr (JObj kvs) \<and> map_of kvs ''body'' = Some (JStr ''bar updated''))
   \<and> fst (test_delete_post placeholder world0) = None
   \<and> fst (test_get_posts (answering empty_ok) world0) \<noteq> None
   \<and> fst (test_post_post (answering empty_ok) world0) \<noteq> None"
proof -
  have "\<not> (\<exists>r xs. fst (get_posts (answering empty_ok) world0) = Inr (Some r)
             \<and> status_code r = 200 \<and> decoded r = Inr (JList xs) \<and> xs \<noteq> [])"
    using perform_returned [of "answering empty_ok" world0 FetchCollection empty_ok]
    by (simp add: answering_def empty_ok_def reply_def error_status_def)
  moreover have "\<not> (\<exists>r kvs. fst (post_post (answering empty_ok) world0) = Inr (Some r)
             \<and> status_code r = 201 \<and> decoded r = Inr (JObj kvs)
             \<and> map_of kvs ''title'' = Some (JStr ''foo''))"
    using perform_returned [of "answering empty_ok" world0 Create empty_ok]
    by (simp add: answering_def empty_ok_def reply_def error_status_def)
  ultimately show ?thesis
    using tests_assert_result_status_and_body [of placeholder world0]
      tests_assert_result_status_and_body [of "answering empty_ok" world0]
      placeholder_runs
    by simp
qed

text \<open>
  Claim C5. The delete test fails its assertions when the delete of post 1 returns
  \<^verbatim>\<open>None\<close>, when its status is not 200, and when the follow-up fetch of post 1
  returns \<^verbatim>\<open>None\<close>. When the follow-up fetch returns a response, no assertion
  fails whatever that response's status code is, and the test runs to its end once
  the body decodes: so it does when the service still serves the deleted post.
\<close>

theorem delete_test_asserts_only_non_null_follow_up:
  assumes "delete_post net 1 (print [Text ''Running test_delete_post''] w) = (res, w1)"
  shows "(res = Inr None \<longrightarrow> fst (test_delete_post net w) = Some assertion_error)
   \<and> (res = Inr (Some d) \<and> status_code d \<noteq> 200
        \<longrightarrow> fst (test_delete_post net w) = Some assertion_error)
   \<and> (res = Inr (Some d) \<and> status_code d = 200 \<and> fst (get_post_by_id net 1 w1) = Inr None
        \<longrightarrow> fst (test_delete_post net w) = Some assertion_error)
   \<and> (res = Inr (Some d) \<and> status_code d = 200
        \<and> fst (get_post_by_id net 1 w1) = Inr (Some g)
        \<longrightarrow> fst (test_delete_post net w) \<noteq> Some assertion_error
            \<and> (decoded g = Inr j \<longrightarrow> fst (test_delete_post net w) = None))"
  by (auto simp: test_delete_post_verdict [OF assms] assertion_error_def split: sum.splits)

lemma durable_delete_run:
  "delete_post durable 1 (print [Text ''Running test_delete_post''] world0) =
     (Inr (Some empty_ok),
      \<lparr>calls = [spec_route (Delete 1)], error_log = [],
       stdout = [[Text ''Running test_delete_post'']], spawned = []\<rparr>)"
  by (simp add: delete_post_def except_RequestException_def checked_def requests_delete_def
      requests_request_def raise_for_status_def durable_def empty_ok_def reply_def
      print_def world0_def BASE_URL_def)

lemma placeholder_delete_run:
  "delete_post placeholder 1 (print [Text ''Running test_delete_post''] world0) =
     (Inr (Some empty_ok),
      \<lparr>calls = [spec_route (Delete 1)], error_log = [],
       stdout = [[Text ''Running test_delete_post'']], spawned = []\<rparr>)"
  by (simp add: delete_post_def except_RequestException_def checked_def requests_delete_def
      requests_request_def raise_for_status_def placeholder_def empty_ok_def reply_def
      print_def world0_def BASE_URL_def)

theorem delete_test_asserts_only_non_null_follow_up_witness:
  "fst (delete_post placeholder 1 (print [Text ''Running test_delete_post''] world0))
     = Inr (Some empty_ok)
   \<and> status_code empty_ok = 200
   \<and> fst (get_post_by_id placeholder 1
            (snd (delete_post placeholder 1 (print [Text ''Running test_delete_post''] world0))))
     = Inr (Some (reply 200 ''OK'' (Inr post1)))
   \<and> fst (test_delete_post placeholder world0) = None
   \<and> fst (delete_post durable 1 (print [Text ''Running test_delete_post''] world0))
     = Inr (Some empty_ok)
   \<and> fst (get_post_by_id durable 1
            (snd (delete_post durable 1 (print [Text ''Running test_delete_post''] world0))))
     = Inr None
   \<and> fst (test_delete_post durable world0) = Some assertion_error"
proof -
  let ?w1 = "\<lparr>calls = [spec_route (Delete 1)], error_log = [],
       stdout = [[Text ''Running test_delete_post'']], spawned = []\<rparr>"
  have a: "fst (get_post_by_id placeholder 1 ?w1) = Inr (Some (reply 200 ''OK'' (Inr post1)))"
    by (simp add: get_post_by_id_def except_RequestException_def checked_def requests_get_def
        requests_request_def raise_for_status_def placeholder_def reply_def BASE_URL_def
        str_int_1)
  have b: "fst (get_post_by_id durable 1 ?w1) = Inr None"
    by (simp add: get_post_by_id_def except_RequestException_def checked_def requests_get_def
        requests_request_def raise_for_status_def durable_def not_found_def reply_def
        logging_error_def)
  have c: "status_code empty_ok = 200" "decoded (reply 200 ''OK'' (Inr post1)) = Inr post1"
    by (simp_all add: empty_ok_def reply_def)
  from delete_test_asserts_only_non_null_follow_up
         [OF placeholder_delete_run, of empty_ok "reply 200 ''OK'' (Inr post1)" post1]
       delete_test_asserts_only_non_null_follow_up [OF durable_delete_run, of empty_ok]
       a b c
  show ?thesis
    by (simp add: placeholder_delete_run durable_delete_run)
qed

text \<open>
  Claim C9. The client never decodes the body. A response with a 2xx status whose body
  is not JSON is returned by every operation as a non-null result, with nothing logged;
  of the exceptions the library call raises, exactly those of the request-exception
  family become \<^verbatim>\<open>None\<close>, any other leaves the operation; and the decoding
  failure appears where a caller decodes the body: the collection test receives the
  non-null result and ends with the decoder's exception.
\<close>

theorem undecodable_body_is_not_a_client_failure:
  "(answer net opn w = Responded r \<and> 200 \<le> status_code r \<and> status_code r < 300
      \<and> decoded r = Inl m
      \<longrightarrow> fst (perform net opn w) = Inr (Some r)
          \<and> error_log (snd (perform net opn w)) = error_log w)
   \<and> (answer net opn w = Raised e
      \<longrightarrow> (fst (perform net opn w) = Inr None) = is_RequestException e
          \<and> (fst (perform net opn w) = Inl e) = (\<not> is_RequestException e))
   \<and> (answer net FetchCollection w = Responded r \<and> status_code r = 200 \<and> decoded r = Inl m
      \<longrightarrow> fst (get_posts net w) = Inr (Some r)
          \<and> fst (test_get_posts net w) = Some (Exn JSONDecodeError m))"
proof (intro conjI impI)
  assume a: "answer net opn w = Responded r \<and> 200 \<le> status_code r \<and> status_code r < 300
      \<and> decoded r = Inl m"
  then have "perform net opn w = (Inr (Some r), w\<lparr>calls := calls w @ [spec_route opn]\<rparr>)"
    by (simp add: answer_route perform_returned error_status_def)
  then show "fst (perform net opn w) = Inr (Some r)"
    and "error_log (snd (perform net opn w)) = error_log w"
    by simp_all
next
  assume "answer net opn w = Raised e"
  then show "(fst (perform net opn w) = Inr None) = is_RequestException e"
    and "(fst (perform net opn w) = Inl e) = (\<not> is_RequestException e)"
    by (simp_all add: answer_route perform_guarded guarded_request)
next
  assume a: "answer net FetchCollection w = Responded r \<and> status_code r = 200
      \<and> decoded r = Inl m"
  then show g: "fst (get_posts net w) = Inr (Some r)"
    using perform_returned [of net w FetchCollection r]
    by (simp add: answer_route error_status_def)
  have "fst (get_posts net (print [Text ''Running test_get_posts''] w)) = Inr (Some r)"
    using fst_perform_print [of net FetchCollection] g by simp
  with a show "fst (test_get_posts net w) = Some (Exn JSONDecodeError m)"
    by (cases "get_posts net (print [Text ''Running test_get_posts''] w)")
       (simp add: test_get_posts_def response_json_def)
qed

theorem undecodable_body_is_not_a_client_failure_witness:
  "answer (answering garbled) (Update 5) world0 = Responded garbled
   \<and> 200 \<le> status_code garbled \<and> status_code garbled < 300
   \<and> decoded garbled = Inl ''Expecting value''
   \<and> fst (perform (answering garbled) (Update 5) world0) = Inr (Some garbled)
   \<and> error_log (snd (perform (answering garbled) (Update 5) world0)) = error_log world0
   \<and> fst (test_get_posts (answering garbled) world0)
       = Some (Exn JSONDecodeError ''Expecting value'')
   \<and> fst (perform unreachable Create world0) = Inr None
   \<and> fst (perform interrupted Create world0) = Inl (Exn OtherException ''KeyboardInterrupt'')"
proof -
  have a: "answer (answering garbled) (Update 5) world0 = Responded garbled
     \<and> 200 \<le> status_code garbled \<and> status_code garbled < 300
     \<and> decoded garbled = Inl ''Expecting value''"
    by (simp add: answer_route answering_def garbled_def reply_def)
  have b: "answer (answering garbled) FetchCollection world0 = Responded garbled
     \<and> status_code garbled = 200 \<and> decoded garbled = Inl ''Expecting value''"
    by (simp add: answer_route answering_def garbled_def reply_def)
  have c: "answer unreachable Create world0 = Raised (Exn ConnectionError ''Connection refused'')"
    "answer interrupted Create world0 = Raised (Exn OtherException ''KeyboardInterrupt'')"
    by (simp_all add: answer_route unreachable_def interrupted_def)
  from undecodable_body_is_not_a_client_failure
         [of "answering garbled" "Update 5" world0 garbled "''Expecting value''"]
       undecodable_body_is_not_a_client_failure
         [of "answering garbled" FetchCollection world0 garbled "''Expecting value''"]
       undecodable_body_is_not_a_client_failure
         [of unreachable Create world0 _ _ "Exn ConnectionError ''Connection refused''"]
       undecodable_body_is_not_a_client_failure
         [of interrupted Create world0 _ _ "Exn OtherException ''KeyboardInterrupt''"]
       a b c
  show ?thesis by simp
qed

section \<open>Properties of the library call over a server\<close>

lemma on_wire_snoc:
  "on_wire srv (h @ [rq]) =
     on_wire srv h @ snd (send_following srv (on_wire srv h) rq DEFAULT_REDIRECT_LIMIT)"
  by (simp add: on_wire_def)

lemma send_following_Done:
  "send_once srv tr rq = Done out \<Longrightarrow> send_following srv tr rq n = (out, [rq])"
  by (cases n) simp_all

lemma send_following_Follow:
  "send_once srv tr rq = Follow rq' \<Longrightarrow>
     send_following srv tr rq (Suc k) =
       (fst (send_following srv (tr @ [rq]) rq' k),
        rq # snd (send_following srv (tr @ [rq]) rq' k))"
  by (simp split: prod.splits)

lemma send_following_head: "\<exists>rest. snd (send_following srv tr rq n) = rq # rest"
  by (cases n; cases "send_once srv tr rq") (simp_all split: prod.splits)

lemma send_following_length: "length (snd (send_following srv tr rq n)) \<le> Suc n"
proof (induction n arbitrary: tr rq)
  case 0
  then show ?case by (simp split: hop.splits)
next
  case (Suc k)
  show ?case
  proof (cases "send_once srv tr rq")
    case (Done out)
    then show ?thesis by (simp add: send_following_Done)
  next
    case (Follow rq')
    with Suc [of "tr @ [rq]" rq'] show ?thesis
      by (simp add: case_prod_beta)
  qed
qed

lemma send_following_chain: "redirect_chain srv tr (snd (send_following srv tr rq n))"
proof (induction n arbitrary: tr rq)
  case 0
  then show ?case by (simp split: hop.splits)
next
  case (Suc k)
  show ?case
  proof (cases "send_once srv tr rq")
    case (Done out)
    then show ?thesis by (simp add: send_following_Done)
  next
    case (Follow rq')
    obtain rest where r: "snd (send_following srv (tr @ [rq]) rq' k) = rq' # rest"
      using send_following_head by blast
    from Suc [of "tr @ [rq]" rq'] r Follow show ?thesis
      by (simp add: case_prod_beta)
  qed
qed

lemma send_once_Done_Responded:
  "send_once srv tr rq = Done (Responded r) \<Longrightarrow>
     \<exists>loc. srv tr rq = Answered r loc
           \<and> (get_redirect_target r loc = None \<or> get_redirect_target r loc = Some [])"
  by (auto simp: send_once_def split: wire_outcome.splits option.splits if_splits)

lemma send_following_final:
  "send_following srv tr rq n = (Responded r, sent) \<Longrightarrow>
     \<exists>loc. srv (tr @ butlast sent) (last sent) = Answered r loc
           \<and> (get_redirect_target r loc = None \<or> get_redirect_target r loc = Some [])"
proof (induction n arbitrary: tr rq sent)
  case 0
  then show ?case
    by (cases "send_once srv tr rq") (auto dest: send_once_Done_Responded)
next
  case (Suc k)
  show ?case
  proof (cases "send_once srv tr rq")
    case (Done out)
    with Suc.prems show ?thesis
      by (auto simp: send_following_Done dest: send_once_Done_Responded)
  next
    case (Follow rq')
    obtain rest where h: "snd (send_following srv (tr @ [rq]) rq' k) = rq' # rest"
      using send_following_head by blast
    from Suc.prems Follow have
      "send_following srv (tr @ [rq]) rq' k = (Responded r, rq' # rest)" and e: "sent = rq # rq' # rest"
      using h by (auto simp: case_prod_beta prod_eq_iff)
    from Suc.IH [OF this(1)] e show ?thesis
      by simp
  qed
qed


lemma sent_by_route:
  "sent_by srv opn w =
     snd (send_following srv (on_wire srv (calls w)) (spec_route opn) DEFAULT_REDIRECT_LIMIT)"
  by (simp add: sent_by_def calls_perform)

lemma answer_session:
  "answer (session srv) opn w =
     fst (send_following srv (on_wire srv (calls w)) (spec_route opn) DEFAULT_REDIRECT_LIMIT)"
  by (simp add: answer_route session_def)

text \<open>
  Claim C7, as stated, fails: when the server answers the request for the collection
  with a 301 and a location, the one call of \<^verbatim>\<open>get_posts\<close> returns the posts and
  has sent two HTTP requests, the second to the new location.
\<close>

theorem followed_redirect_sends_second_request:
  "fst (perform (session moved) FetchCollection world0)
     = Inr (Some (reply 200 ''OK'' (Inr (JList [post1]))))
   \<and> calls (snd (perform (session moved) FetchCollection world0))
     = [\<lparr>verb = GET, url = ''https://jsonplaceholder.typicode.com/posts'', json_arg = None\<rparr>]
   \<and> sent_by moved FetchCollection world0
     = [\<lparr>verb = GET, url = ''https://jsonplaceholder.typicode.com/posts'', json_arg = None\<rparr>,
        \<lparr>verb = GET, url = ''https://jsonplaceholder.typicode.com/posts/'', json_arg = None\<rparr>]
   \<and> length (sent_by moved FetchCollection world0) = 2"
  by code_simp

text \<open>
  Claim C7, amended. Every invocation of a client operation calls the HTTP library
  exactly once, with the request of its route, and issues nothing else itself, on
  failure and on success alike. That one call sends the request and then one further
  HTTP request for each redirect it follows (a 301, 302, 303, 307 or 308 with a
  non-empty location): every request after the first is the one built from the
  redirect that answered the request before it, an invocation sends at least one and
  at most 31 requests, and exactly one when the first answer is no such redirect.
\<close>

theorem one_library_call_per_invocation:
  "(\<exists>rq. calls (snd (perform net opn w)) = calls w @ [rq])
   \<and> calls (snd (perform (session srv) opn w)) = calls w @ [spec_route opn]
   \<and> on_wire srv (calls (snd (perform (session srv) opn w)))
       = on_wire srv (calls w) @ sent_by srv opn w
   \<and> hd (sent_by srv opn w) = spec_route opn
   \<and> 1 \<le> length (sent_by srv opn w) \<and> length (sent_by srv opn w) \<le> 31
   \<and> redirect_chain srv (on_wire srv (calls w)) (sent_by srv opn w)
   \<and> ((\<forall>rq'. send_once srv (on_wire srv (calls w)) (spec_route opn) \<noteq> Follow rq')
        \<longrightarrow> sent_by srv opn w = [spec_route opn])"
proof -
  let ?tr = "on_wire srv (calls w)"
  let ?sent = "snd (send_following srv ?tr (spec_route opn) DEFAULT_REDIRECT_LIMIT)"
  obtain rest where h: "?sent = spec_route opn # rest"
    using send_following_head by blast
  have l: "length ?sent \<le> 31"
    using send_following_length [of srv ?tr "spec_route opn" DEFAULT_REDIRECT_LIMIT]
    by (simp add: DEFAULT_REDIRECT_LIMIT_def)
  have c: "redirect_chain srv ?tr ?sent"
    by (rule send_following_chain)
  have s: "(\<forall>rq'. send_once srv ?tr (spec_route opn) \<noteq> Follow rq')
        \<longrightarrow> ?sent = [spec_route opn]"
    by (cases "send_once srv ?tr (spec_route opn)") (simp_all add: send_following_Done)
  from h l c s show ?thesis
    by (simp add: calls_perform sent_by_route on_wire_snoc)
qed

theorem one_library_call_per_invocation_witness:
  "(\<exists>rq. calls (snd (perform (session missing) (Delete 3) world0)) = calls world0 @ [rq])
   \<and> send_once missing (on_wire missing (calls world0)) (spec_route (Delete 3))
       = Done (Responded not_found)
   \<and> sent_by missing (Delete 3) world0 = [spec_route (Delete 3)]
   \<and> length (sent_by looping Create world0) = 31
   \<and> redirect_chain looping (on_wire looping (calls world0)) (sent_by looping Create world0)
   \<and> fst (perform (session looping) Create world0) = Inr None"
proof -
  have a: "send_once missing (on_wire missing (calls world0)) (spec_route (Delete 3))
             = Done (Responded not_found)"
    by (simp add: send_once_def missing_def get_redirect_target_def)
  then have b: "\<forall>rq'. send_once missing (on_wire missing (calls world0)) (spec_route (Delete 3))
             \<noteq> Follow rq'"
    by simp
  have c: "length (sent_by looping Create world0) = 31"
    by code_simp
  have d: "fst (perform (session looping) Create world0) = Inr None"
    by code_simp
  from one_library_call_per_invocation [of "session missing" "Delete 3" world0 missing]
       one_library_call_per_invocation [of "session looping" Create world0 looping]
       a b c d
  show ?thesis by simp
qed

text \<open>
  Claim C2, as stated, fails: a response with status 304, which is not a 2xx status,
  is returned by the collection fetch as its result, and nothing is logged.
\<close>

theorem redirect_status_is_returned:
  "\<not> (200 \<le> status_code not_modified \<and> status_code not_modified < 300)
   \<and> fst (perform (answering not_modified) FetchCollection world0) = Inr (Some not_modified)
   \<and> error_log (snd (perform (answering not_modified) FetchCollection world0)) = []"
proof -
  have "perform (answering not_modified) FetchCollection world0 =
          (Inr (Some not_modified),
           world0\<lparr>calls := calls world0 @ [spec_route FetchCollection]\<rparr>)"
    by (rule perform_returned)
       (simp_all add: answering_def not_modified_def reply_def error_status_def)
  then show ?thesis
    by (simp add: world0_def not_modified_def reply_def)
qed

text \<open>
  Claim C2, amended. For every client operation and every response that the library
  call hands back to it: a status from 400 to 599 makes the operation log one error
  and return \<^verbatim>\<open>None\<close> rather than the response; any other status makes it return
  the response and log nothing, as for every 2xx status and for a 304. A response
  handed back is the server's answer to the last HTTP request of the call, and is never
  a redirect that the library follows (a 301, 302, 303, 307 or 308 with a non-empty
  location).
\<close>

theorem error_status_becomes_null:
  "(answer net opn w = Responded r \<longrightarrow>
      (if 400 \<le> status_code r \<and> status_code r < 600
       then fst (perform net opn w) = Inr None
            \<and> (\<exists>msg. error_log (snd (perform net opn w))
                       = error_log w @ [op_context opn @ msg])
       else fst (perform net opn w) = Inr (Some r)
            \<and> error_log (snd (perform net opn w)) = error_log w))
   \<and> (answer (session srv) opn w = Responded r \<longrightarrow>
      (\<exists>loc. srv (on_wire srv (calls w) @ butlast (sent_by srv opn w)) (last (sent_by srv opn w))
               = Answered r loc
           \<and> (get_redirect_target r loc = None \<or> get_redirect_target r loc = Some [])))"
proof (intro conjI impI)
  assume a: "answer net opn w = Responded r"
  show "if 400 \<le> status_code r \<and> status_code r < 600
       then fst (perform net opn w) = Inr None
            \<and> (\<exists>msg. error_log (snd (perform net opn w))
                       = error_log w @ [op_context opn @ msg])
       else fst (perform net opn w) = Inr (Some r)
            \<and> error_log (snd (perform net opn w)) = error_log w"
  proof (cases "error_status (status_code r)")
    case True
    with a have "request_failed (net (calls w) (spec_route opn))"
      by (simp add: answer_route request_failed_def)
    from perform_failed [of net w opn, OF this] True show ?thesis
      by (auto simp: error_status_def)
  next
    case False
    with a have "perform net opn w = (Inr (Some r), w\<lparr>calls := calls w @ [spec_route opn]\<rparr>)"
      by (simp add: answer_route perform_returned)
    with False show ?thesis
      by (simp add: error_status_def)
  qed
next
  assume "answer (session srv) opn w = Responded r"
  then have "send_following srv (on_wire srv (calls w)) (spec_route opn) DEFAULT_REDIRECT_LIMIT
               = (Responded r, sent_by srv opn w)"
    by (simp add: answer_session sent_by_route prod_eq_iff)
  then show "\<exists>loc. srv (on_wire srv (calls w) @ butlast (sent_by srv opn w))
                      (last (sent_by srv opn w)) = Answered r loc
           \<and> (get_redirect_target r loc = None \<or> get_redirect_target r loc = Some [])"
    by (rule send_following_final)
qed

theorem error_status_becomes_null_witness:
  "answer (answering not_found) (FetchComments 3) world0 = Responded not_found
   \<and> fst (perform (answering not_found) (FetchComments 3) world0) = Inr None
   \<and> (\<exists>msg. error_log (snd (perform (answering not_found) (FetchComments 3) world0))
              = error_log world0 @ [op_context (FetchComments 3) @ msg])
   \<and> answer (answering empty_ok) (Delete 1) world0 = Responded empty_ok
   \<and> fst (perform (answering empty_ok) (Delete 1) world0) = Inr (Some empty_ok)
   \<and> error_log (snd (perform (answering empty_ok) (Delete 1) world0)) = error_log world0
   \<and> answer (session unchanged) (Delete 1) world0 = Responded not_modified
   \<and> fst (perform (session unchanged) (Delete 1) world0) = Inr (Some not_modified)
   \<and> answer (session moved) FetchCollection world0
       = Responded (reply 200 ''OK'' (Inr (JList [post1])))
   \<and> (\<exists>loc. moved (on_wire moved (calls world0) @ butlast (sent_by moved FetchCollection world0))
               (last (sent_by moved FetchCollection world0))
             = Answered (reply 200 ''OK'' (Inr (JList [post1]))) loc
           \<and> (get_redirect_target (reply 200 ''OK'' (Inr (JList [post1]))) loc = None
               \<or> get_redirect_target (reply 200 ''OK'' (Inr (JList [post1]))) loc = Some []))"
proof -
  have a: "answer (answering not_found) (FetchComments 3) world0 = Responded not_found"
    by (simp add: answer_route answering_def)
  have b: "answer (answering empty_ok) (Delete 1) world0 = Responded empty_ok"
    by (simp add: answer_route answering_def)
  have c: "answer (session unchanged) (Delete 1) world0 = Responded not_modified"
    by (simp add: answer_session DEFAULT_REDIRECT_LIMIT_def send_following_Done send_once_def
        unchanged_def get_redirect_target_def)
  have d: "answer (session moved) FetchCollection world0
       = Responded (reply 200 ''OK'' (Inr (JList [post1])))"
    unfolding answer_session by code_simp
  from error_status_becomes_null [of "answering not_found" "FetchComments 3" world0 not_found]
       error_status_becomes_null [of "answering empty_ok" "Delete 1" world0 empty_ok]
       error_status_becomes_null [of "session unchanged" "Delete 1" world0 not_modified]
       error_status_becomes_null [of _ FetchCollection world0
          "reply 200 ''OK'' (Inr (JList [post1]))" moved]
       a b c d
  show ?thesis
    by (simp add: not_found_def empty_ok_def not_modified_def reply_def)
qed

end
